theory Spec2Isabelle
  imports Complex_Main "HOL-Library.Sublist"
begin

section \<open>Python values used by \<^verbatim>\<open>backend/main.py\<close>\<close>

text \<open>
  A Python \<^verbatim>\<open>str\<close> is a sequence of Unicode code points and \<^verbatim>\<open>len\<close> counts code
  points, so a string is a list of code points (natural numbers). \<^verbatim>\<open>bytes\<close> is a list
  of byte values. A literal of the source is written \<open>lit ''...''\<close>.
\<close>

type_synonym pystr = "nat list"
type_synonym bytes = "nat list"
type_synonym path = pystr

definition lit :: "string \<Rightarrow> pystr" where
  "lit s = map of_char s"

text \<open>
  \<^verbatim>\<open>str.strip()\<close> with no argument removes leading and trailing white space, the code
  points for which CPython's \<^verbatim>\<open>Py_UNICODE_ISSPACE\<close> holds.
\<close>

definition py_isspace :: "nat \<Rightarrow> bool" where
  "py_isspace c =
     ((9 \<le> c \<and> c \<le> 13) \<or> (28 \<le> c \<and> c \<le> 32) \<or> c = 133 \<or> c = 160 \<or> c = 5760
      \<or> (8192 \<le> c \<and> c \<le> 8202) \<or> c = 8232 \<or> c = 8233 \<or> c = 8239 \<or> c = 8287
      \<or> c = 12288)"

definition py_strip :: "pystr \<Rightarrow> pystr" where
  "py_strip s = rev (dropWhile py_isspace (rev (dropWhile py_isspace s)))"

text \<open>
  \<^verbatim>\<open>s.replace(old, new)\<close> for a non-empty \<^verbatim>\<open>old\<close>: every occurrence, leftmost first and
  without overlap. The source calls it with \<^verbatim>\<open>'.ogg'\<close> only; for an empty \<^verbatim>\<open>old\<close>
  (where Python inserts \<^verbatim>\<open>new\<close> between all characters) this function copies \<^verbatim>\<open>s\<close>.
\<close>

function py_replace :: "pystr \<Rightarrow> pystr \<Rightarrow> pystr \<Rightarrow> pystr" where
  "py_replace old new [] = []"
| "py_replace old new (c # cs) =
     (if old \<noteq> [] \<and> take (length old) (c # cs) = old
      then new @ py_replace old new (drop (length old) (c # cs))
      else c # py_replace old new cs)"
  by pat_completeness auto
termination
  by (relation "measure (\<lambda>(old, new, s). length s)") auto

text \<open>Decimal rendering of a natural number, as \<^verbatim>\<open>str(n)\<close> and an f-string give it.\<close>

function str_nat :: "nat \<Rightarrow> pystr" where
  "str_nat n = (if n < 10 then [48 + n] else str_nat (n div 10) @ [48 + n mod 10])"
  by pat_completeness auto
termination
  by (relation "measure (\<lambda>n. n)") auto

text \<open>\<^verbatim>\<open>f"{x}"\<close> for an \<^verbatim>\<open>Optional[str]\<close>: the string itself, or \<^verbatim>\<open>None\<close>.\<close>

definition fmt_opt :: "pystr option \<Rightarrow> pystr" where
  "fmt_opt x = (case x of None \<Rightarrow> lit ''None'' | Some s \<Rightarrow> s)"

section \<open>Exceptions\<close>

text \<open>
  The exceptions the handler distinguishes: FastAPI's \<^verbatim>\<open>HTTPException(status_code, detail)\<close>,
  any other instance of \<^verbatim>\<open>Exception\<close> (carrying its \<^verbatim>\<open>str(e)\<close>), and a
  \<^verbatim>\<open>BaseException\<close> that is not an \<^verbatim>\<open>Exception\<close> (which \<^verbatim>\<open>except Exception\<close> does not
  catch and a bare \<^verbatim>\<open>except:\<close> does).
\<close>

datatype exn =
    HTTPException nat pystr
  | PyException pystr
  | PyBaseException pystr

definition is_Exception :: "exn \<Rightarrow> bool" where
  "is_Exception e = (case e of PyBaseException m \<Rightarrow> False | _ \<Rightarrow> True)"

definition is_status :: "nat \<Rightarrow> exn + 'a \<Rightarrow> bool" where
  "is_status code r = (case r of Inl (HTTPException c d) \<Rightarrow> c = code | _ \<Rightarrow> False)"

text \<open>
  \<^verbatim>\<open>HTTPException.__str__\<close> belongs to Starlette, not to this repository, so the handler
  takes it as a parameter (\<open>http_exception_str\<close> below). Starlette defines it as
  \<^verbatim>\<open>f"{self.status_code}: {self.detail}"\<close>:
\<close>

definition starlette_str :: "nat \<Rightarrow> pystr \<Rightarrow> pystr" where
  "starlette_str code detail = str_nat code @ lit '': '' @ detail"

section \<open>Data model\<close>

text \<open>\<^verbatim>\<open>UploadFile\<close>: \<open>contents\<close> is what \<^verbatim>\<open>await file.read()\<close> returns.\<close>

record upload_file =
  filename :: "pystr option"
  content_type :: "pystr option"
  contents :: bytes

text \<open>\<^verbatim>\<open>class TranscriptionResponse(BaseModel)\<close>, lines 36-41.\<close>

record transcription_response =
  transcript :: pystr
  language :: pystr
  tldr :: pystr
  duration :: "real option"
  status :: pystr

text \<open>\<^verbatim>\<open>class HealthResponse(BaseModel)\<close>, lines 43-46.\<close>

record health_response =
  health_status :: pystr
  model :: pystr
  version :: pystr

text \<open>\<^verbatim>\<open>JSONResponse(status_code, content)\<close> with a one-level JSON object as content.\<close>

record json_response =
  status_code :: nat
  content :: "(pystr \<times> pystr) list"

text \<open>\<^verbatim>\<open>subprocess.CompletedProcess\<close> with \<^verbatim>\<open>capture_output=True, text=True\<close>.\<close>

record completed_process =
  returncode :: int
  stdout :: pystr
  stderr :: pystr

text \<open>
  The dictionary \<^verbatim>\<open>model.transcribe\<close> returns: the key \<^verbatim>\<open>"text"\<close> is always there, the
  keys \<^verbatim>\<open>"language"\<close> and \<^verbatim>\<open>"duration"\<close> may be absent (\<open>None\<close>).
\<close>

record whisper_result =
  res_text :: pystr
  res_language :: "pystr option"
  res_duration :: "real option"

section \<open>Effects\<close>

text \<open>
  The handler's effects are recorded in a trace: log lines, file system calls, the converter
  subprocess and the recognizer call, each with its arguments and what it returned.
\<close>

datatype event =
    LogInfo pystr
  | LogError pystr
  | TempFileCreated path
  | FileWrite path bytes
  | FileClose path
  | SubprocessRun "pystr list" "exn + completed_process"
  | Transcribe path "pystr option" bool "exn + whisper_result"
  | OsRemove path "exn option"

text \<open>
  The state a request runs in: the file system (path to file content), the trace, and the two
  local variables of \<^verbatim>\<open>transcribe_audio\<close> that its \<^verbatim>\<open>finally\<close> block reads.
\<close>

record state =
  fs :: "path \<rightharpoonup> bytes"
  trace :: "event list"
  tmp_input_path :: "path option"
  wav_path :: "path option"

text \<open>
  What lies outside the repository, as parameters of the handler:
  \<^item> \<open>mktemp_stem\<close>: \<^verbatim>\<open>tempfile.NamedTemporaryFile\<close> fails, or picks directory, prefix and
    random part of the new file's name (the suffix is appended to it);
  \<^item> \<open>write_error\<close>, \<open>close_error\<close>: whether writing and closing the file raise;
  \<^item> \<open>subprocess_run\<close>: \<^verbatim>\<open>subprocess.run\<close> fails to start the program, or the program runs,
    changes the file system and exits;
  \<^item> \<open>model_transcribe\<close>: the Whisper model's \<^verbatim>\<open>transcribe\<close>
    (file system, path, language, fp16);
  \<^item> \<open>remove_error\<close>: whether \<^verbatim>\<open>os.remove\<close> of a path raises;
  \<^item> \<open>http_exception_str\<close>: \<^verbatim>\<open>str(e)\<close> of an \<^verbatim>\<open>HTTPException\<close>.
\<close>

record world =
  mktemp_stem :: "(path \<rightharpoonup> bytes) \<Rightarrow> exn + path"
  write_error :: "path \<Rightarrow> bytes \<Rightarrow> exn option"
  close_error :: "path \<Rightarrow> exn option"
  subprocess_run :: "pystr list \<Rightarrow> (path \<rightharpoonup> bytes) \<Rightarrow> exn + completed_process \<times> (path \<rightharpoonup> bytes)"
  model_transcribe :: "(path \<rightharpoonup> bytes) \<Rightarrow> path \<Rightarrow> pystr option \<Rightarrow> bool \<Rightarrow> exn + whisper_result"
  remove_error :: "path \<Rightarrow> exn option"
  http_exception_str :: "nat \<Rightarrow> pystr \<Rightarrow> pystr"

definition emit :: "event \<Rightarrow> state \<Rightarrow> state" where
  "emit e s = s\<lparr>trace := trace s @ [e]\<rparr>"

definition logger_info :: "pystr \<Rightarrow> state \<Rightarrow> state" where
  "logger_info msg s = emit (LogInfo msg) s"

definition logger_error :: "pystr \<Rightarrow> state \<Rightarrow> state" where
  "logger_error msg s = emit (LogError msg) s"

text \<open>\<^verbatim>\<open>str(e)\<close>.\<close>

definition exc_str :: "world \<Rightarrow> exn \<Rightarrow> pystr" where
  "exc_str w e =
     (case e of
        HTTPException code detail \<Rightarrow> http_exception_str w code detail
      | PyException m \<Rightarrow> m
      | PyBaseException m \<Rightarrow> m)"

section \<open>\<^verbatim>\<open>transcribe_audio\<close>, lines 62-140\<close>

text \<open>
  Line 74-75: \<^verbatim>\<open>file_size = len(contents) / (1024 * 1024)\<close> and \<^verbatim>\<open>file_size > 25\<close>. The
  quotient of a length by \<open>2 ^ 20\<close> is exact in binary floating point (and rounding is
  monotone past \<open>2 ^ 53\<close>), so the comparison with 25 is the one on the exact quotient.
\<close>

definition file_size :: "bytes \<Rightarrow> real" where
  "file_size cs = real (length cs) / (1024 * 1024)"

text \<open>
  Lines 83-85: the \<^verbatim>\<open>with tempfile.NamedTemporaryFile(delete=False, suffix=".ogg")\<close> block.
  The file exists once it is created; \<^verbatim>\<open>tmp_input_path\<close> is assigned only after the write
  returned; leaving the block closes the file, also when the write raised.
\<close>

definition save_upload :: "world \<Rightarrow> bytes \<Rightarrow> state \<Rightarrow> (exn + unit) \<times> state" where
  "save_upload w cs s =
     (case mktemp_stem w (fs s) of
        Inl e \<Rightarrow> (Inl e, s)
      | Inr stem \<Rightarrow>
          (let name = stem @ lit ''.ogg'';
               s1 = emit (TempFileCreated name) (s\<lparr>fs := (fs s)(name \<mapsto> [])\<rparr>);
               (r, s2) =
                 (case write_error w name cs of
                    Some e \<Rightarrow> (Inl e, s1)
                  | None \<Rightarrow>
                      (Inr (),
                       (emit (FileWrite name cs) (s1\<lparr>fs := (fs s1)(name \<mapsto> cs)\<rparr>))
                         \<lparr>tmp_input_path := Some name\<rparr>));
               s3 = emit (FileClose name) s2
           in (case close_error w name of
                 Some e \<Rightarrow> (Inl e, s3)
               | None \<Rightarrow> (r, s3))))"

text \<open>The argument list of line 91-96.\<close>

definition ffmpeg_args :: "path \<Rightarrow> path \<Rightarrow> pystr list" where
  "ffmpeg_args inp out =
     [lit ''ffmpeg'', lit ''-i'', inp, lit ''-ar'', lit ''16000'', lit ''-ac'', lit ''1'',
      lit ''-f'', lit ''wav'', out]"

text \<open>Lines 88-101: the name of the converted file, the converter run, its exit status.\<close>

definition convert :: "world \<Rightarrow> state \<Rightarrow> (exn + path) \<times> state" where
  "convert w s =
     (case tmp_input_path s of
        None \<Rightarrow>
          (Inl (PyException ([39] @ lit ''NoneType'' @ [39] @ lit '' object has no attribute '' @
                  [39] @ lit ''replace'' @ [39])), s)
      | Some tmp \<Rightarrow>
          (let wav = py_replace (lit ''.ogg'') (lit ''.wav'') tmp;
               s1 = s\<lparr>wav_path := Some wav\<rparr>;
               args = ffmpeg_args tmp wav
           in (case subprocess_run w args (fs s1) of
                 Inl e \<Rightarrow> (Inl e, emit (SubprocessRun args (Inl e)) s1)
               | Inr (cp, fs') \<Rightarrow>
                   (let s2 = emit (SubprocessRun args (Inr cp)) (s1\<lparr>fs := fs'\<rparr>)
                    in if returncode cp \<noteq> 0
                       then (Inl (HTTPException 500 (lit ''Audio conversion failed'')),
                             logger_error (lit ''FFmpeg error: '' @ stderr cp) s2)
                       else (Inr wav, s2)))))"

text \<open>Lines 111-127: the response built from the recognizer's result.\<close>

definition shape_response :: "whisper_result \<Rightarrow> transcription_response" where
  "shape_response r =
     (let txt = py_strip (res_text r);
          detected_language = (case res_language r of None \<Rightarrow> lit ''unknown'' | Some l \<Rightarrow> l);
          tl = (if length txt > 150 then take 150 txt @ lit ''...'' else txt);
          dur = res_duration r
      in \<lparr>transcript = txt, language = detected_language, tldr = tl, duration = dur,
          status = lit ''success''\<rparr>)"

text \<open>Lines 104-127: the recognizer call, the shaping and the two log lines around them.\<close>

definition recognize :: "world \<Rightarrow> path \<Rightarrow> pystr option \<Rightarrow> state \<Rightarrow> (exn + transcription_response) \<times> state" where
  "recognize w wav lang s =
     (let s1 = logger_info (lit ''Starting transcription...'') s;
          res = model_transcribe w (fs s1) wav lang False;
          s2 = emit (Transcribe wav lang False res) s1
      in (case res of
            Inl e \<Rightarrow> (Inl e, s2)
          | Inr r \<Rightarrow>
              (let resp = shape_response r
               in (Inr resp,
                   logger_info (lit ''Transcription complete. Language: '' @ language resp) s2))))"

text \<open>Lines 82-127: the body of the \<^verbatim>\<open>try\<close>.\<close>

definition try_body :: "world \<Rightarrow> bytes \<Rightarrow> pystr option \<Rightarrow> state \<Rightarrow> (exn + transcription_response) \<times> state" where
  "try_body w cs lang s =
     (case save_upload w cs s of
        (Inl e, s1) \<Rightarrow> (Inl e, s1)
      | (Inr u, s1) \<Rightarrow>
          (case convert w s1 of
             (Inl e, s2) \<Rightarrow> (Inl e, s2)
           | (Inr wav, s2) \<Rightarrow> recognize w wav lang s2))"

text \<open>
  Lines 129-131: \<^verbatim>\<open>except Exception as e\<close> catches every instance of \<^verbatim>\<open>Exception\<close>,
  \<^verbatim>\<open>HTTPException\<close> included, logs \<^verbatim>\<open>str(e)\<close> and raises \<^verbatim>\<open>HTTPException(500, str(e))\<close>.
\<close>

definition except_clause :: "world \<Rightarrow> (exn + 'a) \<times> state \<Rightarrow> (exn + 'a) \<times> state" where
  "except_clause w rs =
     (case rs of
        (Inr v, s) \<Rightarrow> (Inr v, s)
      | (Inl e, s) \<Rightarrow>
          if is_Exception e
          then (Inl (HTTPException 500 (exc_str w e)),
                logger_error (lit ''Transcription error: '' @ exc_str w e) s)
          else (Inl e, s))"

text \<open>\<^verbatim>\<open>os.remove(path)\<close>: raises and leaves the file, or removes it.\<close>

definition os_remove :: "world \<Rightarrow> path \<Rightarrow> state \<Rightarrow> (exn + unit) \<times> state" where
  "os_remove w p s =
     (case remove_error w p of
        Some e \<Rightarrow> (Inl e, emit (OsRemove p (Some e)) s)
      | None \<Rightarrow> (Inr (), emit (OsRemove p None) (s\<lparr>fs := (fs s)(p := None)\<rparr>)))"

text \<open>
  Lines 136-140, one round of the loop: \<^verbatim>\<open>if path and os.path.exists(path)\<close>, then
  \<^verbatim>\<open>os.remove\<close> inside \<^verbatim>\<open>try ... except: pass\<close>.
\<close>

definition cleanup_path :: "world \<Rightarrow> path option \<Rightarrow> state \<Rightarrow> (exn + unit) \<times> state" where
  "cleanup_path w po s =
     (case po of
        None \<Rightarrow> (Inr (), s)
      | Some p \<Rightarrow>
          if p \<noteq> [] \<and> fs s p \<noteq> None
          then (case os_remove w p s of
                  (Inl e, s') \<Rightarrow> (Inr (), s')
                | (Inr u, s') \<Rightarrow> (Inr (), s'))
          else (Inr (), s))"

text \<open>The \<^verbatim>\<open>for\<close> loop of line 135: it stops at the first round that raises.\<close>

fun for_paths :: "world \<Rightarrow> path option list \<Rightarrow> state \<Rightarrow> (exn + unit) \<times> state" where
  "for_paths w [] s = (Inr (), s)"
| "for_paths w (po # pos) s =
     (case cleanup_path w po s of
        (Inl e, s') \<Rightarrow> (Inl e, s')
      | (Inr u, s') \<Rightarrow> for_paths w pos s')"

text \<open>Lines 133-140: the \<^verbatim>\<open>finally\<close> block.\<close>

definition cleanup :: "world \<Rightarrow> state \<Rightarrow> (exn + unit) \<times> state" where
  "cleanup w s = for_paths w [tmp_input_path s, wav_path s] s"

text \<open>
  \<^verbatim>\<open>try: ... finally: ...\<close>: the block runs after the protected part whatever its outcome;
  an exception of the block replaces that outcome.
\<close>

definition try_finally :: "(exn + 'a) \<times> state \<Rightarrow> (state \<Rightarrow> (exn + unit) \<times> state) \<Rightarrow> (exn + 'a) \<times> state" where
  "try_finally rs block =
     (case rs of
        (r, s) \<Rightarrow>
          (case block s of
             (Inl e, s') \<Rightarrow> (Inl e, s')
           | (Inr u, s') \<Rightarrow> (r, s')))"

text \<open>Line 70: the only place that reads the upload's file name and content type.\<close>

definition received_msg :: "upload_file \<Rightarrow> pystr" where
  "received_msg file =
     lit ''Received file: '' @ fmt_opt (filename file) @ lit '', type: '' @ fmt_opt (content_type file)"

text \<open>Lines 78-140: what follows the size check.\<close>

definition process :: "world \<Rightarrow> bytes \<Rightarrow> pystr option \<Rightarrow> state \<Rightarrow> (exn + transcription_response) \<times> state" where
  "process w cs lang s =
     try_finally (except_clause w (try_body w cs lang (s\<lparr>tmp_input_path := None, wav_path := None\<rparr>)))
       (cleanup w)"

definition transcribe_audio :: "world \<Rightarrow> upload_file \<Rightarrow> pystr option \<Rightarrow> state \<Rightarrow> (exn + transcription_response) \<times> state" where
  "transcribe_audio w file lang s =
     (let s0 = logger_info (received_msg file) s;
          cs = contents file
      in if file_size cs > 25
         then (Inl (HTTPException 413 (lit ''File too large. Max 25MB.'')), s0)
         else process w cs lang s0)"

text \<open>
  Lines 143-149: the handler registered for \<^verbatim>\<open>Exception\<close>; it returns the response and
  what it logs.
\<close>

definition general_exception_handler :: "world \<Rightarrow> 'r \<Rightarrow> exn \<Rightarrow> json_response \<times> event list" where
  "general_exception_handler w request exc =
     (\<lparr>status_code = 500, content = [(lit ''detail'', lit ''Internal server error'')]\<rparr>,
      [LogError (lit ''Unhandled exception: '' @ exc_str w exc)])"

section \<open>Module level and the health endpoints, lines 32-60\<close>

text \<open>
  Global names of the module that hold configuration strings, and the process environment.
  Reading a name that is not bound raises \<^verbatim>\<open>NameError\<close>.
\<close>

type_synonym globals = "string \<rightharpoonup> pystr"

definition name_error :: "string \<Rightarrow> exn" where
  "name_error n = PyException (lit ''name '' @ [39] @ lit n @ [39] @ lit '' is not defined'')"

definition lookup_name :: "globals \<Rightarrow> string \<Rightarrow> exn + pystr" where
  "lookup_name g n = (case g n of None \<Rightarrow> Inl (name_error n) | Some v \<Rightarrow> Inr v)"

definition os_getenv :: "(pystr \<rightharpoonup> pystr) \<Rightarrow> pystr \<Rightarrow> pystr \<Rightarrow> pystr" where
  "os_getenv environ key dflt = (case environ key of None \<Rightarrow> dflt | Some v \<Rightarrow> v)"

text \<open>Line 32, \<^verbatim>\<open>MODEL_SIZE = os.getenv("tiny", "base")\<close>: the module's only configuration name.\<close>

definition module_globals :: "(pystr \<rightharpoonup> pystr) \<Rightarrow> globals" where
  "module_globals environ = [''MODEL_SIZE'' \<mapsto> os_getenv environ (lit ''tiny'') (lit ''base'')]"

text \<open>
  Lines 32-34: the assignment, the log line and \<^verbatim>\<open>whisper.load_model(tiny)\<close>; the result is
  the globals, the log and the identifier of the model that is loaded.
\<close>

definition load_module :: "(pystr \<rightharpoonup> pystr) \<Rightarrow> exn + globals \<times> event list \<times> pystr" where
  "load_module environ =
     (let g = module_globals environ
      in (case lookup_name g ''tiny'' of
            Inl e \<Rightarrow> Inl e
          | Inr logged \<Rightarrow>
              (case lookup_name g ''tiny'' of
                 Inl e \<Rightarrow> Inl e
               | Inr loaded \<Rightarrow> Inr (g, [LogInfo (lit ''Loading Whisper model: '' @ logged)], loaded))))"

text \<open>Lines 48-53, \<^verbatim>\<open>GET /\<close>.\<close>

definition root_endpoint :: "globals \<Rightarrow> exn + health_response" where
  "root_endpoint g =
     (case lookup_name g ''tiny'' of
        Inl e \<Rightarrow> Inl e
      | Inr t \<Rightarrow> Inr \<lparr>health_status = lit ''healthy'', model = t, version = lit ''1.0.0''\<rparr>)"

text \<open>Lines 55-60, \<^verbatim>\<open>GET /health\<close>.\<close>

definition health :: "globals \<Rightarrow> exn + health_response" where
  "health g =
     (case lookup_name g ''tiny'' of
        Inl e \<Rightarrow> Inl e
      | Inr t \<Rightarrow> Inr \<lparr>health_status = lit ''healthy'', model = t, version = lit ''1.0.0''\<rparr>)"

section \<open>Concrete requests and collaborators\<close>

text \<open>
  A world in which every collaborator succeeds: the temporary file is \<^verbatim>\<open>/tmp/tmpa1.ogg\<close>, the
  converter exits 0 after writing its last argument, the recognizer hears \<^verbatim>\<open>" hello "\<close> in
  English, and \<^verbatim>\<open>str\<close> of an \<^verbatim>\<open>HTTPException\<close> is Starlette's.
\<close>

definition ok_world :: world where
  "ok_world =
     \<lparr>mktemp_stem = (\<lambda>f. Inr (lit ''/tmp/tmpa1'')),
      write_error = (\<lambda>p b. None),
      close_error = (\<lambda>p. None),
      subprocess_run = (\<lambda>args f. Inr (\<lparr>returncode = 0, stdout = [], stderr = []\<rparr>, f(last args \<mapsto> [82, 73, 70, 70]))),
      model_transcribe = (\<lambda>f p l h. Inr \<lparr>res_text = lit '' hello '', res_language = Some (lit ''en''), res_duration = None\<rparr>),
      remove_error = (\<lambda>p. None),
      http_exception_str = starlette_str\<rparr>"

text \<open>The converter rejects the upload: exit status 1, a diagnostic on stderr, no output file.\<close>

definition bad_audio_world :: world where
  "bad_audio_world =
     ok_world\<lparr>subprocess_run :=
       (\<lambda>args f. Inr (\<lparr>returncode = 1, stdout = [], stderr = lit ''Invalid data found''\<rparr>, f))\<rparr>"

text \<open>\<^verbatim>\<open>os.remove\<close> always raises.\<close>

definition undeletable_world :: world where
  "undeletable_world = ok_world\<lparr>remove_error := (\<lambda>p. Some (PyException (lit ''Permission denied'')))\<rparr>"

text \<open>\<^verbatim>\<open>NamedTemporaryFile\<close> raises.\<close>

definition no_tmp_world :: world where
  "no_tmp_world = ok_world\<lparr>mktemp_stem := (\<lambda>f. Inl (PyException (lit ''No usable temporary directory'')))\<rparr>"

text \<open>Writing the upload raises (the disk is full).\<close>

definition disk_full_world :: world where
  "disk_full_world = ok_world\<lparr>write_error := (\<lambda>p b. Some (PyException (lit ''No space left on device'')))\<rparr>"

text \<open>The recognizer returns a given text, with no language and a duration of 2 seconds.\<close>

definition hears :: "pystr \<Rightarrow> world" where
  "hears t =
     ok_world\<lparr>model_transcribe :=
       (\<lambda>f p l h. Inr \<lparr>res_text = t, res_language = None, res_duration = Some 2\<rparr>)\<rparr>"

definition boot :: state where
  "boot = \<lparr>fs = Map.empty, trace = [], tmp_input_path = None, wav_path = None\<rparr>"

definition small_file :: upload_file where
  "small_file = \<lparr>filename = Some (lit ''a.ogg''), content_type = Some (lit ''audio/ogg''), contents = [79, 103, 103, 83]\<rparr>"

definition file_of_size :: "nat \<Rightarrow> upload_file" where
  "file_of_size n = \<lparr>filename = None, content_type = None, contents = replicate n 0\<rparr>"

section \<open>Observations on traces and states\<close>

definition is_remove :: "event \<Rightarrow> bool" where
  "is_remove e = (case e of OsRemove p r \<Rightarrow> True | _ \<Rightarrow> False)"


text \<open>The same state with a longer history.\<close>

definition retrace :: "event list \<Rightarrow> state \<Rightarrow> state" where
  "retrace t s = s\<lparr>trace := t @ trace s\<rparr>"

section \<open>The size check\<close>

lemma oversize_iff: "(file_size cs > 25) = (25 * 2 ^ 20 < length cs)"
  by (simp add: file_size_def pos_less_divide_eq)

section \<open>The \<^verbatim>\<open>finally\<close> block never raises\<close>

lemma cleanup_path_ok: "fst (cleanup_path w po s) = Inr ()"
  by (simp add: cleanup_path_def split: option.splits prod.splits sum.splits)

lemma for_paths_ok: "fst (for_paths w pos s) = Inr ()"
proof (induction pos arbitrary: s)
  case Nil
  show ?case by simp
next
  case (Cons po pos)
  obtain r s' where c: "cleanup_path w po s = (r, s')" by (cases "cleanup_path w po s")
  with cleanup_path_ok [of w po s] have "r = Inr ()" by simp
  with c Cons show ?case by simp
qed

lemma cleanup_ok: "fst (cleanup w s) = Inr ()"
  unfolding cleanup_def by (rule for_paths_ok)

lemma try_finally_cleanup: "fst (try_finally rs (cleanup w)) = fst rs"
proof -
  obtain r s where rs: "rs = (r, s)" by (cases rs)
  obtain c s' where c: "cleanup w s = (c, s')" by (cases "cleanup w s")
  with cleanup_ok [of w s] have "c = Inr ()" by simp
  with rs c show ?thesis by (simp add: try_finally_def)
qed

section \<open>What the \<^verbatim>\<open>except\<close> clause lets through\<close>

lemma except_clause_not_413: "\<not> is_status 413 (fst (except_clause w rs))"
  by (simp add: except_clause_def is_status_def is_Exception_def split: prod.splits sum.splits exn.splits)

lemma except_clause_Inr: "fst (except_clause w rs) = Inr v \<Longrightarrow> fst rs = Inr v"
  by (auto simp: except_clause_def split: prod.splits sum.splits if_splits)

lemma process_not_413: "\<not> is_status 413 (fst (process w cs lang s))"
  by (simp add: process_def try_finally_cleanup except_clause_not_413)

section \<open>The successful path\<close>

lemma try_body_Inr:
  assumes "try_body w cs lang s = (Inr resp, s')"
  shows "\<exists>tmp wav cp r. resp = shape_response r \<and> returncode cp = 0
      \<and> tmp_input_path s' = Some tmp \<and> wav_path s' = Some wav
      \<and> trace s' = trace s @ [TempFileCreated tmp, FileWrite tmp cs, FileClose tmp,
            SubprocessRun (ffmpeg_args tmp wav) (Inr cp),
            LogInfo (lit ''Starting transcription...''),
            Transcribe wav lang False (Inr r),
            LogInfo (lit ''Transcription complete. Language: '' @ language resp)]"
  using assms
  by (auto simp: try_body_def save_upload_def convert_def recognize_def emit_def logger_info_def
      logger_error_def Let_def split: sum.splits option.splits prod.splits if_splits)

lemma cleanup_path_frame:
  "\<exists>evs. trace (snd (cleanup_path w po s)) = trace s @ evs \<and> list_all is_remove evs
     \<and> tmp_input_path (snd (cleanup_path w po s)) = tmp_input_path s
     \<and> wav_path (snd (cleanup_path w po s)) = wav_path s"
  by (auto simp: cleanup_path_def os_remove_def emit_def is_remove_def split: option.splits prod.splits sum.splits)

lemma for_paths_frame:
  "\<exists>evs. trace (snd (for_paths w pos s)) = trace s @ evs \<and> list_all is_remove evs
     \<and> tmp_input_path (snd (for_paths w pos s)) = tmp_input_path s
     \<and> wav_path (snd (for_paths w pos s)) = wav_path s"
proof (induction pos arbitrary: s)
  case Nil
  show ?case by simp
next
  case (Cons po pos)
  obtain r s1 where c: "cleanup_path w po s = (r, s1)" by (cases "cleanup_path w po s")
  with cleanup_path_ok [of w po s] have r: "r = Inr ()" by simp
  from cleanup_path_frame [of w po s] c obtain evs1 where
    1: "trace s1 = trace s @ evs1" "list_all is_remove evs1"
       "tmp_input_path s1 = tmp_input_path s" "wav_path s1 = wav_path s" by auto
  from Cons [of s1] obtain evs2 where
    2: "trace (snd (for_paths w pos s1)) = trace s1 @ evs2" "list_all is_remove evs2"
       "tmp_input_path (snd (for_paths w pos s1)) = tmp_input_path s1"
       "wav_path (snd (for_paths w pos s1)) = wav_path s1" by auto
  have "for_paths w (po # pos) s = for_paths w pos s1" using c r by simp
  with 1 2 show ?case by (intro exI [of _ "evs1 @ evs2"]) simp
qed

lemma cleanup_frame:
  "\<exists>evs. trace (snd (cleanup w s)) = trace s @ evs \<and> list_all is_remove evs
     \<and> tmp_input_path (snd (cleanup w s)) = tmp_input_path s
     \<and> wav_path (snd (cleanup w s)) = wav_path s"
  unfolding cleanup_def by (rule for_paths_frame)

lemma process_Inr:
  assumes "process w cs lang s = (Inr resp, s')"
  shows "\<exists>s1. try_body w cs lang (s\<lparr>tmp_input_path := None, wav_path := None\<rparr>) = (Inr resp, s1)
           \<and> s' = snd (cleanup w s1)"
proof -
  let ?tb = "try_body w cs lang (s\<lparr>tmp_input_path := None, wav_path := None\<rparr>)"
  obtain r s1 where tb: "?tb = (r, s1)" by (cases ?tb)
  obtain r2 s2 where ec: "except_clause w (r, s1) = (r2, s2)" by (cases "except_clause w (r, s1)")
  obtain c s3 where cl: "cleanup w s2 = (c, s3)" by (cases "cleanup w s2")
  from cleanup_ok [of w s2] cl have c: "c = Inr ()" by simp
  from assms tb ec cl c have "r2 = Inr resp" "s3 = s'" by (simp_all add: process_def try_finally_def)
  with ec have "r = Inr resp" "s2 = s1"
    by (auto simp: except_clause_def split: sum.splits if_splits)
  with tb cl \<open>s3 = s'\<close> show ?thesis by simp
qed

lemma transcribe_audio_Inr:
  assumes "transcribe_audio w file lang s = (Inr resp, s')"
  shows "length (contents file) \<le> 25 * 2 ^ 20 \<and> process w (contents file) lang (logger_info (received_msg file) s) = (Inr resp, s')"
  using assms by (auto simp: transcribe_audio_def Let_def oversize_iff split: if_splits)

lemma success_trace:
  assumes "transcribe_audio w file lang s = (Inr resp, s')"
  shows "\<exists>tmp wav cp r evs. resp = shape_response r \<and> returncode cp = 0
      \<and> tmp_input_path s' = Some tmp \<and> wav_path s' = Some wav \<and> list_all is_remove evs
      \<and> trace s' = trace s @ [LogInfo (received_msg file), TempFileCreated tmp, FileWrite tmp (contents file), FileClose tmp,
            SubprocessRun (ffmpeg_args tmp wav) (Inr cp),
            LogInfo (lit ''Starting transcription...''),
            Transcribe wav lang False (Inr r),
            LogInfo (lit ''Transcription complete. Language: '' @ language resp)] @ evs"
proof -
  from transcribe_audio_Inr [OF assms] have p: "process w (contents file) lang (logger_info (received_msg file) s) = (Inr resp, s')" by simp
  from process_Inr [OF p] obtain s1 where
    tb: "try_body w (contents file) lang ((logger_info (received_msg file) s)\<lparr>tmp_input_path := None, wav_path := None\<rparr>) = (Inr resp, s1)"
    and s': "s' = snd (cleanup w s1)" by auto
  from try_body_Inr [OF tb] obtain tmp wav cp r where
    1: "resp = shape_response r" "returncode cp = 0" "tmp_input_path s1 = Some tmp" "wav_path s1 = Some wav"
    and t1: "trace s1 = trace s @ [LogInfo (received_msg file), TempFileCreated tmp, FileWrite tmp (contents file), FileClose tmp,
            SubprocessRun (ffmpeg_args tmp wav) (Inr cp),
            LogInfo (lit ''Starting transcription...''),
            Transcribe wav lang False (Inr r),
            LogInfo (lit ''Transcription complete. Language: '' @ language resp)]"
    by (auto simp: logger_info_def emit_def)
  from cleanup_frame [of w s1] s' obtain evs where
    2: "trace s' = trace s1 @ evs" "list_all is_remove evs" "tmp_input_path s' = tmp_input_path s1" "wav_path s' = wav_path s1"
    by auto
  from 1 2 t1 show ?thesis by auto
qed

text \<open>The same path, with the collaborators' calls that lead to the response.\<close>

lemma try_body_Inr_calls:
  assumes "try_body w cs lang s = (Inr resp, s')"
  shows "\<exists>stem cp f r.
      mktemp_stem w (fs s) = Inr stem
      \<and> write_error w (stem @ lit ''.ogg'') cs = None
      \<and> close_error w (stem @ lit ''.ogg'') = None
      \<and> subprocess_run w
           (ffmpeg_args (stem @ lit ''.ogg'') (py_replace (lit ''.ogg'') (lit ''.wav'') (stem @ lit ''.ogg'')))
           ((fs s)(stem @ lit ''.ogg'' \<mapsto> cs)) = Inr (cp, f)
      \<and> returncode cp = 0
      \<and> model_transcribe w f (py_replace (lit ''.ogg'') (lit ''.wav'') (stem @ lit ''.ogg'')) lang False = Inr r
      \<and> resp = shape_response r
      \<and> trace s' = trace s @ [TempFileCreated (stem @ lit ''.ogg''),
            FileWrite (stem @ lit ''.ogg'') cs, FileClose (stem @ lit ''.ogg''),
            SubprocessRun
              (ffmpeg_args (stem @ lit ''.ogg'') (py_replace (lit ''.ogg'') (lit ''.wav'') (stem @ lit ''.ogg'')))
              (Inr cp),
            LogInfo (lit ''Starting transcription...''),
            Transcribe (py_replace (lit ''.ogg'') (lit ''.wav'') (stem @ lit ''.ogg'')) lang False (Inr r),
            LogInfo (lit ''Transcription complete. Language: '' @ language resp)]"
  using assms
  by (auto simp: try_body_def save_upload_def convert_def recognize_def emit_def logger_info_def
      logger_error_def Let_def split: sum.splits option.splits prod.splits if_splits)

lemma success_calls:
  assumes "transcribe_audio w file lang s = (Inr resp, s')"
  shows "\<exists>stem cp f r evs.
      mktemp_stem w (fs s) = Inr stem
      \<and> write_error w (stem @ lit ''.ogg'') (contents file) = None
      \<and> close_error w (stem @ lit ''.ogg'') = None
      \<and> subprocess_run w
           (ffmpeg_args (stem @ lit ''.ogg'') (py_replace (lit ''.ogg'') (lit ''.wav'') (stem @ lit ''.ogg'')))
           ((fs s)(stem @ lit ''.ogg'' \<mapsto> contents file)) = Inr (cp, f)
      \<and> returncode cp = 0
      \<and> model_transcribe w f (py_replace (lit ''.ogg'') (lit ''.wav'') (stem @ lit ''.ogg'')) lang False = Inr r
      \<and> resp = shape_response r
      \<and> list_all is_remove evs
      \<and> trace s' = trace s @ [LogInfo (received_msg file), TempFileCreated (stem @ lit ''.ogg''),
            FileWrite (stem @ lit ''.ogg'') (contents file), FileClose (stem @ lit ''.ogg''),
            SubprocessRun
              (ffmpeg_args (stem @ lit ''.ogg'') (py_replace (lit ''.ogg'') (lit ''.wav'') (stem @ lit ''.ogg'')))
              (Inr cp),
            LogInfo (lit ''Starting transcription...''),
            Transcribe (py_replace (lit ''.ogg'') (lit ''.wav'') (stem @ lit ''.ogg'')) lang False (Inr r),
            LogInfo (lit ''Transcription complete. Language: '' @ language resp)] @ evs"
proof -
  let ?s0 = "(logger_info (received_msg file) s)\<lparr>tmp_input_path := None, wav_path := None\<rparr>"
  from transcribe_audio_Inr [OF assms]
  have p: "process w (contents file) lang (logger_info (received_msg file) s) = (Inr resp, s')" by simp
  from process_Inr [OF p] obtain s1 where
    tb: "try_body w (contents file) lang ?s0 = (Inr resp, s1)"
    and s': "s' = snd (cleanup w s1)" by auto
  have f0: "fs ?s0 = fs s" "trace ?s0 = trace s @ [LogInfo (received_msg file)]"
    by (simp_all add: logger_info_def emit_def)
  from try_body_Inr_calls [OF tb] obtain stem cp f r where
    1: "mktemp_stem w (fs s) = Inr stem"
      "write_error w (stem @ lit ''.ogg'') (contents file) = None"
      "close_error w (stem @ lit ''.ogg'') = None"
      "subprocess_run w
           (ffmpeg_args (stem @ lit ''.ogg'') (py_replace (lit ''.ogg'') (lit ''.wav'') (stem @ lit ''.ogg'')))
           ((fs s)(stem @ lit ''.ogg'' \<mapsto> contents file)) = Inr (cp, f)"
      "returncode cp = 0"
      "model_transcribe w f (py_replace (lit ''.ogg'') (lit ''.wav'') (stem @ lit ''.ogg'')) lang False = Inr r"
      "resp = shape_response r"
    and t1: "trace s1 = trace ?s0 @ [TempFileCreated (stem @ lit ''.ogg''),
            FileWrite (stem @ lit ''.ogg'') (contents file), FileClose (stem @ lit ''.ogg''),
            SubprocessRun
              (ffmpeg_args (stem @ lit ''.ogg'') (py_replace (lit ''.ogg'') (lit ''.wav'') (stem @ lit ''.ogg'')))
              (Inr cp),
            LogInfo (lit ''Starting transcription...''),
            Transcribe (py_replace (lit ''.ogg'') (lit ''.wav'') (stem @ lit ''.ogg'')) lang False (Inr r),
            LogInfo (lit ''Transcription complete. Language: '' @ language resp)]"
    unfolding f0(1) by blast
  from cleanup_frame [of w s1] s' obtain evs where
    2: "trace s' = trace s1 @ evs" "list_all is_remove evs" by auto
  from 2 t1 have tr: "trace s' = trace s @ [LogInfo (received_msg file), TempFileCreated (stem @ lit ''.ogg''),
            FileWrite (stem @ lit ''.ogg'') (contents file), FileClose (stem @ lit ''.ogg''),
            SubprocessRun
              (ffmpeg_args (stem @ lit ''.ogg'') (py_replace (lit ''.ogg'') (lit ''.wav'') (stem @ lit ''.ogg'')))
              (Inr cp),
            LogInfo (lit ''Starting transcription...''),
            Transcribe (py_replace (lit ''.ogg'') (lit ''.wav'') (stem @ lit ''.ogg'')) lang False (Inr r),
            LogInfo (lit ''Transcription complete. Language: '' @ language resp)] @ evs"
    by (simp add: f0(2))
  from 1 2(2) tr show ?thesis by blast
qed

section \<open>Shaping, \<^verbatim>\<open>strip\<close> and the concrete runs\<close>

lemma length_lit: "length (lit s) = length s" by (simp add: lit_def)

lemma shape_tldr:
  "tldr (shape_response r) =
     (if length (transcript (shape_response r)) \<le> 150 then transcript (shape_response r)
      else take 150 (transcript (shape_response r)) @ lit ''...'')"
  by (simp add: shape_response_def Let_def)

lemma shape_tldr_length: "length (tldr (shape_response r)) \<le> 153"
  by (simp add: shape_response_def Let_def length_lit)

lemma shape_status: "status (shape_response r) = lit ''success''"
  by (simp add: shape_response_def Let_def)

lemma shape_fields:
  "transcript (shape_response r) = py_strip (res_text r)"
  "language (shape_response r) = (case res_language r of None \<Rightarrow> lit ''unknown'' | Some l \<Rightarrow> l)"
  "duration (shape_response r) = res_duration r"
  by (simp_all add: shape_response_def Let_def)

lemma py_strip_decomp:
  "\<exists>l t. s = l @ py_strip s @ t \<and> list_all py_isspace l \<and> list_all py_isspace t"
proof -
  let ?d = "dropWhile py_isspace s"
  have 1: "s = takeWhile py_isspace s @ ?d" by simp
  have "rev (takeWhile py_isspace (rev ?d) @ dropWhile py_isspace (rev ?d)) = ?d"
    by (simp only: takeWhile_dropWhile_id rev_rev_ident)
  then have 2: "?d = py_strip s @ rev (takeWhile py_isspace (rev ?d))"
    by (simp only: rev_append py_strip_def)
  have 3: "list_all py_isspace (takeWhile py_isspace s)"
    by (simp add: list_all_iff) (metis set_takeWhileD)
  have 4: "list_all py_isspace (rev (takeWhile py_isspace (rev ?d)))"
    by (simp add: list_all_iff) (metis set_takeWhileD)
  from 1 2 have "s = takeWhile py_isspace s @ py_strip s @ rev (takeWhile py_isspace (rev ?d))" by simp
  with 3 4 show ?thesis by blast
qed

lemma py_strip_ends:
  "py_strip s = [] \<or> (\<not> py_isspace (hd (py_strip s)) \<and> \<not> py_isspace (last (py_strip s)))"
proof (cases "py_strip s = []")
  case True
  then show ?thesis by simp
next
  case False
  let ?d = "dropWhile py_isspace s"
  let ?e = "dropWhile py_isspace (rev ?d)"
  from False have e: "?e \<noteq> []" by (simp add: py_strip_def)
  have d: "?d \<noteq> []"
  proof
    assume a: "?d = []"
    have "?e = dropWhile py_isspace (rev [])" by (simp only: a)
    with e show False by simp
  qed
  have "last (py_strip s) = hd ?e" using e by (simp add: py_strip_def last_rev)
  moreover have "\<not> py_isspace (hd ?e)" using e by (rule hd_dropWhile)
  moreover have "hd (py_strip s) = last ?e" using e by (simp add: py_strip_def hd_rev)
  moreover have "last ?e = last (rev ?d)"
  proof -
    have "last (takeWhile py_isspace (rev ?d) @ ?e) = last ?e" using e by (rule last_appendR)
    then show ?thesis by (simp only: takeWhile_dropWhile_id)
  qed
  moreover have "last (rev ?d) = hd ?d" using d by (simp add: last_rev)
  moreover have "\<not> py_isspace (hd ?d)" using d by (rule hd_dropWhile)
  ultimately show ?thesis by simp
qed

lemma hears_run:
  "fst (transcribe_audio (hears t) small_file None boot) =
     Inr (shape_response \<lparr>res_text = t, res_language = None, res_duration = Some 2\<rparr>)"
  by (simp add: transcribe_audio_def process_def try_body_def save_upload_def convert_def
      recognize_def except_clause_def cleanup_def cleanup_path_def os_remove_def try_finally_def
      emit_def logger_info_def Let_def hears_def ok_world_def small_file_def boot_def
      file_size_def ffmpeg_args_def lit_def)

lemma strip_a: "py_strip (replicate n 97) = replicate n 97"
  by (simp add: py_strip_def py_isspace_def)

lemma strip_dots: "py_strip (lit ''...'') = lit ''...''"
  by (simp add: py_strip_def py_isspace_def lit_def)

lemma ok_run:
  "transcribe_audio ok_world small_file (Some (lit ''en'')) boot =
     (Inr \<lparr>transcript = lit ''hello'', language = lit ''en'', tldr = lit ''hello'', duration = None,
           status = lit ''success''\<rparr>,
      \<lparr>fs = Map.empty,
       trace = [LogInfo (received_msg small_file), TempFileCreated (lit ''/tmp/tmpa1.ogg''),
            FileWrite (lit ''/tmp/tmpa1.ogg'') (contents small_file), FileClose (lit ''/tmp/tmpa1.ogg''),
            SubprocessRun (ffmpeg_args (lit ''/tmp/tmpa1.ogg'') (lit ''/tmp/tmpa1.wav''))
              (Inr \<lparr>returncode = 0, stdout = [], stderr = []\<rparr>),
            LogInfo (lit ''Starting transcription...''),
            Transcribe (lit ''/tmp/tmpa1.wav'') (Some (lit ''en'')) False
              (Inr \<lparr>res_text = lit '' hello '', res_language = Some (lit ''en''), res_duration = None\<rparr>),
            LogInfo (lit ''Transcription complete. Language: en''),
            OsRemove (lit ''/tmp/tmpa1.ogg'') None, OsRemove (lit ''/tmp/tmpa1.wav'') None],
       tmp_input_path = Some (lit ''/tmp/tmpa1.ogg''), wav_path = Some (lit ''/tmp/tmpa1.wav'')\<rparr>)"
  by (simp add: transcribe_audio_def process_def try_body_def save_upload_def convert_def
      recognize_def except_clause_def cleanup_def cleanup_path_def os_remove_def try_finally_def
      emit_def logger_info_def Let_def ok_world_def small_file_def boot_def shape_response_def
      py_strip_def py_isspace_def received_msg_def fmt_opt_def
      file_size_def ffmpeg_args_def lit_def)

section \<open>Requests that differ in their history only\<close>

lemma retrace_fields [simp]:
  "fs (retrace t s) = fs s" "tmp_input_path (retrace t s) = tmp_input_path s"
  "wav_path (retrace t s) = wav_path s" "trace (retrace t s) = t @ trace s"
  by (simp_all add: retrace_def)

lemma emit_retrace: "emit e (retrace t s) = retrace t (emit e s)"
  by (simp add: emit_def retrace_def)

lemma retrace_update:
  "(retrace t s)\<lparr>fs := f\<rparr> = retrace t (s\<lparr>fs := f\<rparr>)"
  "(retrace t s)\<lparr>tmp_input_path := p\<rparr> = retrace t (s\<lparr>tmp_input_path := p\<rparr>)"
  "(retrace t s)\<lparr>wav_path := p\<rparr> = retrace t (s\<lparr>wav_path := p\<rparr>)"
  by (simp_all add: retrace_def)

lemma save_upload_retrace:
  "save_upload w cs (retrace t s) = (fst (save_upload w cs s), retrace t (snd (save_upload w cs s)))"
  by (simp add: save_upload_def Let_def emit_retrace retrace_update split: sum.splits option.splits)

lemma convert_retrace:
  "convert w (retrace t s) = (fst (convert w s), retrace t (snd (convert w s)))"
  by (simp add: convert_def Let_def emit_retrace retrace_update logger_error_def
      split: sum.splits option.splits prod.splits)

lemma recognize_retrace:
  "recognize w wav lang (retrace t s) = (fst (recognize w wav lang s), retrace t (snd (recognize w wav lang s)))"
  by (simp add: recognize_def Let_def emit_retrace retrace_update logger_info_def
      split: sum.splits option.splits prod.splits)

lemma try_body_retrace:
  "try_body w cs lang (retrace t s) = (fst (try_body w cs lang s), retrace t (snd (try_body w cs lang s)))"
  by (simp add: try_body_def save_upload_retrace convert_retrace recognize_retrace
      split: sum.splits prod.splits)

lemma except_clause_retrace:
  "except_clause w (r, retrace t s) = (fst (except_clause w (r, s)), retrace t (snd (except_clause w (r, s))))"
  by (simp add: except_clause_def logger_error_def emit_retrace split: sum.splits)

lemma os_remove_retrace:
  "os_remove w p (retrace t s) = (fst (os_remove w p s), retrace t (snd (os_remove w p s)))"
  by (simp add: os_remove_def emit_retrace retrace_update split: option.splits)

lemma cleanup_path_retrace:
  "cleanup_path w po (retrace t s) = (fst (cleanup_path w po s), retrace t (snd (cleanup_path w po s)))"
  by (simp add: cleanup_path_def os_remove_retrace split: option.splits sum.splits prod.splits)

lemma for_paths_retrace:
  "for_paths w pos (retrace t s) = (fst (for_paths w pos s), retrace t (snd (for_paths w pos s)))"
proof (induction pos arbitrary: s)
  case Nil
  show ?case by simp
next
  case (Cons po pos)
  show ?case
    by (simp add: cleanup_path_retrace Cons split: prod.splits sum.splits)
qed

lemma cleanup_retrace:
  "cleanup w (retrace t s) = (fst (cleanup w s), retrace t (snd (cleanup w s)))"
  by (simp add: cleanup_def for_paths_retrace)

lemma process_retrace:
  "process w cs lang (retrace t s) = (fst (process w cs lang s), retrace t (snd (process w cs lang s)))"
proof -
  let ?s0 = "s\<lparr>tmp_input_path := None, wav_path := None\<rparr>"
  obtain r s1 where tb: "try_body w cs lang ?s0 = (r, s1)" by (cases "try_body w cs lang ?s0")
  obtain r2 s2 where ec: "except_clause w (r, s1) = (r2, s2)" by (cases "except_clause w (r, s1)")
  obtain c s3 where cl: "cleanup w s2 = (c, s3)" by (cases "cleanup w s2")
  have "try_body w cs lang ((retrace t s)\<lparr>tmp_input_path := None, wav_path := None\<rparr>) = (r, retrace t s1)"
    using tb try_body_retrace [of w cs lang t ?s0] by (simp add: retrace_update)
  moreover have "except_clause w (r, retrace t s1) = (r2, retrace t s2)"
    using ec except_clause_retrace [of w r t s1] by simp
  moreover have "cleanup w (retrace t s2) = (c, retrace t s3)"
    using cl cleanup_retrace [of w t s2] by simp
  ultimately show ?thesis using tb ec cl
    by (simp add: process_def try_finally_def split: sum.splits)
qed

lemma logger_info_retrace:
  "logger_info m s = retrace (trace s @ [LogInfo m]) (s\<lparr>trace := []\<rparr>)"
  by (simp add: logger_info_def emit_def retrace_def)

section \<open>The temporary paths and their removal\<close>

lemma py_replace_nonempty: "new \<noteq> [] \<Longrightarrow> s \<noteq> [] \<Longrightarrow> py_replace old new s \<noteq> []"
  by (cases s) simp_all

lemma ogg_name_nonempty: "stem @ lit ''.ogg'' \<noteq> []"
  by (simp add: lit_def)

lemma wav_name_nonempty: "py_replace (lit ''.ogg'') (lit ''.wav'') (stem @ lit ''.ogg'') \<noteq> []"
  by (rule py_replace_nonempty) (simp_all add: lit_def)





text \<open>The local variables after the try body: nothing, the saved upload only, or both paths.\<close>

lemma try_body_paths:
  assumes "tmp_input_path s = None" "wav_path s = None"
  shows "(tmp_input_path (snd (try_body w cs lang s)) = None \<and> wav_path (snd (try_body w cs lang s)) = None)
     \<or> (\<exists>stem. tmp_input_path (snd (try_body w cs lang s)) = Some (stem @ lit ''.ogg'')
           \<and> (wav_path (snd (try_body w cs lang s)) = None
              \<or> wav_path (snd (try_body w cs lang s)) =
                   Some (py_replace (lit ''.ogg'') (lit ''.wav'') (stem @ lit ''.ogg''))))"
  using assms
  by (auto simp: try_body_def save_upload_def convert_def recognize_def emit_def logger_info_def
      logger_error_def Let_def split: sum.splits option.splits prod.splits if_splits)

lemma except_clause_paths:
  "tmp_input_path (snd (except_clause w rs)) = tmp_input_path (snd rs)
   \<and> wav_path (snd (except_clause w rs)) = wav_path (snd rs)"
  by (auto simp: except_clause_def logger_error_def emit_def split: prod.splits sum.splits)

lemma cleanup_path_keeps_absent:
  "fs s p = None \<Longrightarrow> fs (snd (cleanup_path w po s)) p = None"
  by (auto simp: cleanup_path_def os_remove_def emit_def split: option.splits prod.splits sum.splits)

lemma cleanup_path_removes:
  "remove_error w p = None \<Longrightarrow> p \<noteq> [] \<Longrightarrow> fs (snd (cleanup_path w (Some p) s)) p = None"
  by (auto simp: cleanup_path_def os_remove_def emit_def split: option.splits prod.splits sum.splits)

lemma for_paths_keeps_absent:
  "fs s p = None \<Longrightarrow> fs (snd (for_paths w pos s)) p = None"
proof (induction pos arbitrary: s)
  case Nil
  then show ?case by simp
next
  case (Cons po pos)
  obtain r s1 where c: "cleanup_path w po s = (r, s1)" by (cases "cleanup_path w po s")
  with cleanup_path_ok [of w po s] have r: "r = Inr ()" by simp
  from cleanup_path_keeps_absent [OF Cons.prems, of w po] c have "fs s1 p = None" by simp
  from Cons.IH [OF this] c r show ?case by simp
qed

lemma for_paths_removes:
  assumes "Some p \<in> set pos" "remove_error w p = None" "p \<noteq> []"
  shows "fs (snd (for_paths w pos s)) p = None"
  using assms(1)
proof (induction pos arbitrary: s)
  case Nil
  then show ?case by simp
next
  case (Cons po pos)
  obtain r s1 where c: "cleanup_path w po s = (r, s1)" by (cases "cleanup_path w po s")
  with cleanup_path_ok [of w po s] have r: "r = Inr ()" by simp
  have run: "for_paths w (po # pos) s = for_paths w pos s1" using c r by simp
  show ?case
  proof (cases "po = Some p")
    case True
    with cleanup_path_removes [OF assms(2,3), of s] c have "fs s1 p = None" by simp
    from for_paths_keeps_absent [OF this] run show ?thesis by simp
  next
    case False
    with Cons.prems have "Some p \<in> set pos" by simp
    from Cons.IH [OF this] run show ?thesis by simp
  qed
qed

lemma cleanup_removes:
  assumes "tmp_input_path s = Some p \<or> wav_path s = Some p" "remove_error w p = None" "p \<noteq> []"
  shows "fs (snd (cleanup w s)) p = None"
proof -
  from assms(1) have "Some p \<in> set [tmp_input_path s, wav_path s]" by auto
  from for_paths_removes [OF this assms(2,3)] show ?thesis by (simp add: cleanup_def)
qed

lemma process_split:
  "process w cs lang s =
     (fst (except_clause w (try_body w cs lang (s\<lparr>tmp_input_path := None, wav_path := None\<rparr>))),
      snd (cleanup w (snd (except_clause w (try_body w cs lang (s\<lparr>tmp_input_path := None, wav_path := None\<rparr>))))))"
proof -
  let ?e = "except_clause w (try_body w cs lang (s\<lparr>tmp_input_path := None, wav_path := None\<rparr>))"
  obtain r s1 where e: "?e = (r, s1)" by (cases ?e)
  obtain c s2 where c: "cleanup w s1 = (c, s2)" by (cases "cleanup w s1")
  with cleanup_ok [of w s1] have "c = Inr ()" by simp
  with e c show ?thesis by (simp add: process_def try_finally_def)
qed

lemma process_paths:
  assumes "tmp_input_path (snd (process w cs lang s)) = Some p \<or> wav_path (snd (process w cs lang s)) = Some p"
  shows "p \<noteq> [] \<and> (remove_error w p = None \<longrightarrow> fs (snd (process w cs lang s)) p = None)"
proof -
  let ?s0 = "s\<lparr>tmp_input_path := None, wav_path := None\<rparr>"
  let ?t = "try_body w cs lang ?s0"
  let ?e = "except_clause w ?t"
  have fin: "snd (process w cs lang s) = snd (cleanup w (snd ?e))" by (simp add: process_split)
  from cleanup_frame [of w "snd ?e"] except_clause_paths [of w ?t]
  have loc: "tmp_input_path (snd (cleanup w (snd ?e))) = tmp_input_path (snd ?t)"
    "wav_path (snd (cleanup w (snd ?e))) = wav_path (snd ?t)" by auto
  from assms fin loc have a: "tmp_input_path (snd ?t) = Some p \<or> wav_path (snd ?t) = Some p" by simp
  have "tmp_input_path ?s0 = None" "wav_path ?s0 = None" by simp_all
  from try_body_paths [OF this, of w cs lang] a have ne: "p \<noteq> []"
    using ogg_name_nonempty wav_name_nonempty by auto
  from a except_clause_paths [of w ?t]
  have b: "tmp_input_path (snd ?e) = Some p \<or> wav_path (snd ?e) = Some p" by simp
  have "fs (snd (cleanup w (snd ?e))) p = None" if "remove_error w p = None"
    using cleanup_removes [OF b that ne] .
  with ne fin show ?thesis by simp
qed

section \<open>The events of a request\<close>


lemma accepted_run:
  "\<not> 25 * 2 ^ 20 < length (contents file) \<Longrightarrow>
   transcribe_audio w file lang s = process w (contents file) lang (logger_info (received_msg file) s)"
  by (simp add: transcribe_audio_def oversize_iff Let_def)

lemma save_upload_ok:
  assumes "mktemp_stem w (fs s) = Inr stem"
    "write_error w (stem @ lit ''.ogg'') cs = None" "close_error w (stem @ lit ''.ogg'') = None"
  shows "save_upload w cs s =
    (Inr (), s\<lparr>fs := (fs s)(stem @ lit ''.ogg'' \<mapsto> cs),
               trace := trace s @ [TempFileCreated (stem @ lit ''.ogg''),
                  FileWrite (stem @ lit ''.ogg'') cs, FileClose (stem @ lit ''.ogg'')],
               tmp_input_path := Some (stem @ lit ''.ogg'')\<rparr>)"
  using assms by (simp add: save_upload_def Let_def emit_def)




section \<open>More concrete runs\<close>


lemma undeletable_run:
  "fst (transcribe_audio undeletable_world small_file None boot) = Inr (shape_response \<lparr>res_text = lit '' hello '', res_language = Some (lit ''en''), res_duration = None\<rparr>)
   \<and> fs (snd (transcribe_audio undeletable_world small_file None boot)) (lit ''/tmp/tmpa1.ogg'') = Some (contents small_file)
   \<and> TempFileCreated (lit ''/tmp/tmpa1.ogg'') \<in> set (trace (snd (transcribe_audio undeletable_world small_file None boot)))"
  by (simp add: transcribe_audio_def process_def try_body_def save_upload_def convert_def
      recognize_def except_clause_def cleanup_def cleanup_path_def os_remove_def try_finally_def
      emit_def logger_info_def logger_error_def Let_def undeletable_world_def ok_world_def small_file_def boot_def
      file_size_def ffmpeg_args_def lit_def)

lemma no_tmp_run:
  "transcribe_audio no_tmp_world small_file None boot =
     (Inl (HTTPException 500 (lit ''No usable temporary directory'')),
      \<lparr>fs = Map.empty,
       trace = [LogInfo (received_msg small_file),
            LogError (lit ''Transcription error: No usable temporary directory'')],
       tmp_input_path = None, wav_path = None\<rparr>)"
  by (simp add: transcribe_audio_def process_def try_body_def save_upload_def convert_def
      recognize_def except_clause_def cleanup_def cleanup_path_def os_remove_def try_finally_def
      emit_def logger_info_def logger_error_def Let_def no_tmp_world_def ok_world_def small_file_def boot_def
      exc_str_def is_Exception_def received_msg_def fmt_opt_def
      file_size_def ffmpeg_args_def lit_def)


text \<open>
  When the write of line 84 raises, the file exists but \<^verbatim>\<open>tmp_input_path\<close> was never
  assigned, so the \<^verbatim>\<open>finally\<close> block does not visit it and the file stays.
\<close>

lemma disk_full_run:
  "transcribe_audio disk_full_world small_file None boot =
     (Inl (HTTPException 500 (lit ''No space left on device'')),
      \<lparr>fs = [lit ''/tmp/tmpa1.ogg'' \<mapsto> []],
       trace = [LogInfo (received_msg small_file), TempFileCreated (lit ''/tmp/tmpa1.ogg''),
            FileClose (lit ''/tmp/tmpa1.ogg''),
            LogError (lit ''Transcription error: No space left on device'')],
       tmp_input_path = None, wav_path = None\<rparr>)"
  by (simp add: transcribe_audio_def process_def try_body_def save_upload_def convert_def
      recognize_def except_clause_def cleanup_def cleanup_path_def os_remove_def try_finally_def
      emit_def logger_info_def logger_error_def Let_def disk_full_world_def ok_world_def small_file_def boot_def
      exc_str_def is_Exception_def received_msg_def fmt_opt_def
      file_size_def ffmpeg_args_def lit_def)

section \<open>Claims\<close>

text \<open>
  C6. The handler answers 413 exactly when the bytes read are more than 25 MiB
  (\<open>25 * 2 ^ 20\<close> bytes). The rejection comes before any temporary file is written and before
  any conversion: the request's only effect is the log line of line 70. An upload of exactly
  25 MiB is not rejected by the size check.
\<close>

theorem size_check:
  "is_status 413 (fst (transcribe_audio w file lang s)) = (25 * 2 ^ 20 < length (contents file))
   \<and> (25 * 2 ^ 20 < length (contents file) \<longrightarrow>
        transcribe_audio w file lang s =
          (Inl (HTTPException 413 (lit ''File too large. Max 25MB.'')), logger_info (received_msg file) s))
   \<and> (length (contents file) = 25 * 2 ^ 20 \<longrightarrow> \<not> is_status 413 (fst (transcribe_audio w file lang s)))"
proof -
  have big: "transcribe_audio w file lang s =
          (Inl (HTTPException 413 (lit ''File too large. Max 25MB.'')), logger_info (received_msg file) s)"
    if "25 * 2 ^ 20 < length (contents file)"
    using that by (simp add: transcribe_audio_def oversize_iff Let_def)
  have small: "\<not> is_status 413 (fst (transcribe_audio w file lang s))"
    if "\<not> 25 * 2 ^ 20 < length (contents file)"
    using that by (simp add: transcribe_audio_def oversize_iff Let_def process_not_413)
  have "is_status 413 (fst (transcribe_audio w file lang s))" if "25 * 2 ^ 20 < length (contents file)"
    using big [OF that] by (simp add: is_status_def)
  with big small show ?thesis by auto
qed

theorem size_check_witness:
  "transcribe_audio ok_world (file_of_size 26214401) None boot =
     (Inl (HTTPException 413 (lit ''File too large. Max 25MB.'')),
      logger_info (received_msg (file_of_size 26214401)) boot)
   \<and> \<not> is_status 413 (fst (transcribe_audio ok_world (file_of_size 26214400) None boot))"
  using size_check [of ok_world "file_of_size 26214401" None boot]
    size_check [of ok_world "file_of_size 26214400" None boot]
  by (simp add: file_of_size_def)

text \<open>
  C2. In every successful response the tldr is the transcript unchanged when the transcript has
  at most 150 characters, and its first 150 characters followed by \<^verbatim>\<open>...\<close> when it has more;
  so the tldr never has more than 153 characters.
\<close>

theorem tldr_truncation:
  assumes "transcribe_audio w file lang s = (Inr resp, s')"
  shows "tldr resp =
           (if length (transcript resp) \<le> 150 then transcript resp
            else take 150 (transcript resp) @ lit ''...'')
         \<and> length (tldr resp) \<le> 153"
proof -
  from success_trace [OF assms] obtain r where "resp = shape_response r" by blast
  then show ?thesis using shape_tldr [of r] shape_tldr_length [of r] by simp
qed

theorem tldr_truncation_witness:
  "fst (transcribe_audio (hears (replicate 151 97)) small_file None boot) =
     Inr (shape_response \<lparr>res_text = replicate 151 97, res_language = None, res_duration = Some 2\<rparr>)
   \<and> tldr (shape_response \<lparr>res_text = replicate 151 97, res_language = None, res_duration = Some 2\<rparr>) =
       replicate 150 97 @ lit ''...''"
  using tldr_truncation [of "hears (replicate 151 97)" small_file None boot
      "shape_response \<lparr>res_text = replicate 151 97, res_language = None, res_duration = Some 2\<rparr>"
      "snd (transcribe_audio (hears (replicate 151 97)) small_file None boot)"]
    hears_run [of "replicate 151 97"]
  by (simp add: prod_eq_iff shape_fields strip_a)

text \<open>
  C3, as amended. Every successful response answers an upload of at most 25 MiB and has status
  \<^verbatim>\<open>success\<close>; the first 150 characters of its tldr are a prefix of the transcript; the tldr
  has at most 153 characters; when the transcript has more than 150 characters the tldr ends in
  \<^verbatim>\<open>...\<close> and has exactly 153 characters; otherwise the tldr is the transcript.
\<close>

theorem tldr_of_success:
  assumes "transcribe_audio w file lang s = (Inr resp, s')"
  shows "length (contents file) \<le> 25 * 2 ^ 20
         \<and> status resp = lit ''success''
         \<and> prefix (take 150 (tldr resp)) (transcript resp)
         \<and> length (tldr resp) \<le> 153
         \<and> (150 < length (transcript resp) \<longrightarrow>
              suffix (lit ''...'') (tldr resp) \<and> length (tldr resp) = 153)
         \<and> (length (transcript resp) \<le> 150 \<longrightarrow> tldr resp = transcript resp)"
proof -
  from success_trace [OF assms] obtain r where r: "resp = shape_response r" by blast
  have size: "length (contents file) \<le> 25 * 2 ^ 20"
    using transcribe_audio_Inr [OF assms] by simp
  have pre: "prefix (take 150 (tldr resp)) (transcript resp)"
    unfolding r by (simp add: shape_tldr take_is_prefix)
  have long: "suffix (lit ''...'') (tldr resp) \<and> length (tldr resp) = 153"
    if "150 < length (transcript resp)"
    using that unfolding r by (simp add: shape_tldr length_lit suffix_def)
  have short: "tldr resp = transcript resp" if "length (transcript resp) \<le> 150"
    using that unfolding r by (simp add: shape_tldr)
  from size pre long short shape_status [of r] shape_tldr_length [of r] r
  show ?thesis by simp
qed

theorem tldr_of_success_witness:
  "fst (transcribe_audio (hears (replicate 152 97)) small_file None boot) =
     Inr (shape_response \<lparr>res_text = replicate 152 97, res_language = None, res_duration = Some 2\<rparr>)
   \<and> take 150 (tldr (shape_response \<lparr>res_text = replicate 152 97, res_language = None, res_duration = Some 2\<rparr>)) =
       replicate 150 97
   \<and> suffix (lit ''...'') (tldr (shape_response \<lparr>res_text = replicate 152 97, res_language = None, res_duration = Some 2\<rparr>))"
  using tldr_of_success [of "hears (replicate 152 97)" small_file None boot
      "shape_response \<lparr>res_text = replicate 152 97, res_language = None, res_duration = Some 2\<rparr>"
      "snd (transcribe_audio (hears (replicate 152 97)) small_file None boot)"]
    hears_run [of "replicate 152 97"]
  by (simp add: prod_eq_iff shape_fields strip_a shape_tldr)

text \<open>
  C3 as stated fails twice. A transcript of 151 letters gives a tldr of 153 characters, which is
  no prefix of the transcript; and the transcript \<^verbatim>\<open>...\<close> gives a tldr that ends in \<^verbatim>\<open>...\<close>
  although the transcript has only 3 characters.
\<close>

theorem tldr_prefix_counterexample:
  "fst (transcribe_audio (hears (replicate 151 97)) small_file None boot) =
     Inr (shape_response \<lparr>res_text = replicate 151 97, res_language = None, res_duration = Some 2\<rparr>)
   \<and> length (contents small_file) \<le> 25 * 2 ^ 20
   \<and> \<not> prefix (tldr (shape_response \<lparr>res_text = replicate 151 97, res_language = None, res_duration = Some 2\<rparr>))
         (transcript (shape_response \<lparr>res_text = replicate 151 97, res_language = None, res_duration = Some 2\<rparr>))
   \<and> fst (transcribe_audio (hears (lit ''...'')) small_file None boot) =
     Inr (shape_response \<lparr>res_text = lit ''...'', res_language = None, res_duration = Some 2\<rparr>)
   \<and> suffix (lit ''...'') (tldr (shape_response \<lparr>res_text = lit ''...'', res_language = None, res_duration = Some 2\<rparr>))
   \<and> \<not> 150 < length (transcript (shape_response \<lparr>res_text = lit ''...'', res_language = None, res_duration = Some 2\<rparr>))"
proof -
  let ?long = "shape_response \<lparr>res_text = replicate 151 97, res_language = None, res_duration = Some 2\<rparr>"
  let ?dots = "shape_response \<lparr>res_text = lit ''...'', res_language = None, res_duration = Some 2\<rparr>"
  have "\<not> prefix (tldr ?long) (transcript ?long)"
  proof
    assume "prefix (tldr ?long) (transcript ?long)"
    then have "length (tldr ?long) \<le> length (transcript ?long)" by (rule prefix_length_le)
    then show False by (simp add: shape_tldr shape_fields strip_a length_lit)
  qed
  moreover have "suffix (lit ''...'') (tldr ?dots)"
    by (simp add: shape_tldr shape_fields strip_dots length_lit suffix_def)
  moreover have "\<not> 150 < length (transcript ?dots)"
    by (simp add: shape_fields strip_dots length_lit)
  moreover have "length (contents small_file) \<le> 25 * 2 ^ 20" by (simp add: small_file_def)
  ultimately show ?thesis using hears_run [of "replicate 151 97"] hears_run [of "lit ''...''"] by simp
qed

text \<open>
  C9. A successful request saved the upload and ran the converter, which exited with status 0
  and left a file system \<open>f\<close>; the response is then shaped from what the recognizer returns
  when it is called on \<open>f\<close> with the path the converter was given as output, the caller's
  language and \<^verbatim>\<open>fp16=False\<close>, and that call is the only recognizer call in the trace. The
  response's transcript is the recognizer's text without its leading and trailing white space,
  its language is the recognizer's language or \<^verbatim>\<open>unknown\<close> when there is none, and its
  duration is the recognizer's duration, present exactly when the recognizer gives one.
\<close>



theorem recognizer_call_and_shape:
  assumes "transcribe_audio w file lang s = (Inr resp, s')"
  shows "\<exists>stem cp f r evs l t.
      mktemp_stem w (fs s) = Inr stem
      \<and> subprocess_run w
           (ffmpeg_args (stem @ lit ''.ogg'') (py_replace (lit ''.ogg'') (lit ''.wav'') (stem @ lit ''.ogg'')))
           ((fs s)(stem @ lit ''.ogg'' \<mapsto> contents file)) = Inr (cp, f)
      \<and> returncode cp = 0
      \<and> model_transcribe w f (py_replace (lit ''.ogg'') (lit ''.wav'') (stem @ lit ''.ogg'')) lang False = Inr r
      \<and> trace s' = trace s @ [LogInfo (received_msg file), TempFileCreated (stem @ lit ''.ogg''),
            FileWrite (stem @ lit ''.ogg'') (contents file), FileClose (stem @ lit ''.ogg''),
            SubprocessRun
              (ffmpeg_args (stem @ lit ''.ogg'') (py_replace (lit ''.ogg'') (lit ''.wav'') (stem @ lit ''.ogg'')))
              (Inr cp),
            LogInfo (lit ''Starting transcription...''),
            Transcribe (py_replace (lit ''.ogg'') (lit ''.wav'') (stem @ lit ''.ogg'')) lang False (Inr r),
            LogInfo (lit ''Transcription complete. Language: '' @ language resp)] @ evs
      \<and> list_all is_remove evs
      \<and> transcript resp = py_strip (res_text r)
      \<and> res_text r = l @ transcript resp @ t \<and> list_all py_isspace l \<and> list_all py_isspace t
      \<and> (transcript resp = [] \<or>
          \<not> py_isspace (hd (transcript resp)) \<and> \<not> py_isspace (last (transcript resp)))
      \<and> language resp = (case res_language r of None \<Rightarrow> lit ''unknown'' | Some d \<Rightarrow> d)
      \<and> duration resp = res_duration r"
proof -
  from success_calls [OF assms] obtain stem cp f r evs where
    m: "mktemp_stem w (fs s) = Inr stem"
    and run: "subprocess_run w
           (ffmpeg_args (stem @ lit ''.ogg'') (py_replace (lit ''.ogg'') (lit ''.wav'') (stem @ lit ''.ogg'')))
           ((fs s)(stem @ lit ''.ogg'' \<mapsto> contents file)) = Inr (cp, f)"
    and cp: "returncode cp = 0"
    and rec: "model_transcribe w f (py_replace (lit ''.ogg'') (lit ''.wav'') (stem @ lit ''.ogg'')) lang False = Inr r"
    and r: "resp = shape_response r" and evs: "list_all is_remove evs"
    and tr: "trace s' = trace s @ [LogInfo (received_msg file), TempFileCreated (stem @ lit ''.ogg''),
            FileWrite (stem @ lit ''.ogg'') (contents file), FileClose (stem @ lit ''.ogg''),
            SubprocessRun
              (ffmpeg_args (stem @ lit ''.ogg'') (py_replace (lit ''.ogg'') (lit ''.wav'') (stem @ lit ''.ogg'')))
              (Inr cp),
            LogInfo (lit ''Starting transcription...''),
            Transcribe (py_replace (lit ''.ogg'') (lit ''.wav'') (stem @ lit ''.ogg'')) lang False (Inr r),
            LogInfo (lit ''Transcription complete. Language: '' @ language resp)] @ evs"
    by blast
  from py_strip_decomp [of "res_text r"] obtain l t where
    lt: "res_text r = l @ py_strip (res_text r) @ t" "list_all py_isspace l" "list_all py_isspace t"
    by blast
  have f: "transcript resp = py_strip (res_text r)"
    "language resp = (case res_language r of None \<Rightarrow> lit ''unknown'' | Some d \<Rightarrow> d)"
    "duration resp = res_duration r"
    unfolding r by (simp_all add: shape_fields)
  have e: "transcript resp = [] \<or>
          \<not> py_isspace (hd (transcript resp)) \<and> \<not> py_isspace (last (transcript resp))"
    unfolding f using py_strip_ends [of "res_text r"] by simp
  from m run cp rec tr evs f lt e show ?thesis
    apply -
    apply (rule exI [where x = stem])
    apply (rule exI [where x = cp])
    apply (rule exI [where x = f])
    apply (rule exI [where x = r])
    apply (rule exI [where x = evs])
    apply (rule exI [where x = l])
    apply (rule exI [where x = t])
    apply simp
    done
qed

theorem recognizer_call_and_shape_witness:
  "fst (transcribe_audio ok_world small_file (Some (lit ''en'')) boot) =
     Inr \<lparr>transcript = lit ''hello'', language = lit ''en'', tldr = lit ''hello'', duration = None,
           status = lit ''success''\<rparr>
   \<and> Transcribe (lit ''/tmp/tmpa1.wav'') (Some (lit ''en'')) False
        (Inr \<lparr>res_text = lit '' hello '', res_language = Some (lit ''en''), res_duration = None\<rparr>)
       \<in> set (trace (snd (transcribe_audio ok_world small_file (Some (lit ''en'')) boot)))"
  using recognizer_call_and_shape [of ok_world small_file "Some (lit ''en'')" boot
      "\<lparr>transcript = lit ''hello'', language = lit ''en'', tldr = lit ''hello'', duration = None,
           status = lit ''success''\<rparr>"
      "snd (transcribe_audio ok_world small_file (Some (lit ''en'')) boot)"]
    ok_run
  by (simp add: prod_eq_iff)

text \<open>
  C10. Two uploads with the same bytes and the same language hint are handled alike, whatever
  their file names and content types: the same outcome (the size check included), the same
  file system and temporary paths afterwards, and the same events after the first log line,
  hence the same bytes written to the temporary file and the same converter and recognizer
  arguments. File name and content type appear in that first log line only.
\<close>

theorem upload_metadata_only_logged:
  assumes "contents f1 = contents f2"
  shows "fst (transcribe_audio w f1 lang s) = fst (transcribe_audio w f2 lang s)
     \<and> fs (snd (transcribe_audio w f1 lang s)) = fs (snd (transcribe_audio w f2 lang s))
     \<and> tmp_input_path (snd (transcribe_audio w f1 lang s)) = tmp_input_path (snd (transcribe_audio w f2 lang s))
     \<and> wav_path (snd (transcribe_audio w f1 lang s)) = wav_path (snd (transcribe_audio w f2 lang s))
     \<and> (\<exists>rest.
          trace (snd (transcribe_audio w f1 lang s)) = trace s @ LogInfo (received_msg f1) # rest
        \<and> trace (snd (transcribe_audio w f2 lang s)) = trace s @ LogInfo (received_msg f2) # rest)"
proof (cases "file_size (contents f1) > 25")
  case True
  with assms show ?thesis
    by (simp add: transcribe_audio_def Let_def logger_info_def emit_def)
next
  case False
  let ?b = "s\<lparr>trace := []\<rparr>"
  let ?p = "process w (contents f1) lang ?b"
  have run: "transcribe_audio w f lang s =
      (fst ?p, retrace (trace s @ [LogInfo (received_msg f)]) (snd ?p))"
    if "contents f = contents f1" for f
    using that False
    by (simp add: transcribe_audio_def Let_def logger_info_retrace [of _ s] process_retrace)
  show ?thesis
    using run [of f1] run [of f2] assms by simp
qed

theorem upload_metadata_only_logged_witness:
  "contents small_file = contents (small_file\<lparr>filename := Some (lit ''b.mp3''), content_type := None\<rparr>)
   \<and> fst (transcribe_audio ok_world small_file None boot) =
       fst (transcribe_audio ok_world (small_file\<lparr>filename := Some (lit ''b.mp3''), content_type := None\<rparr>) None boot)"
  using upload_metadata_only_logged [of small_file "small_file\<lparr>filename := Some (lit ''b.mp3''), content_type := None\<rparr>" ok_world None boot]
  by simp

text \<open>
  C1, as amended. For a request that gets past the size check the \<^verbatim>\<open>finally\<close> block never
  raises, so the outcome of the request is the outcome of the \<^verbatim>\<open>try\<close>/\<^verbatim>\<open>except\<close> part,
  whatever the exit path; and at the end of the request every path the handler recorded in
  \<^verbatim>\<open>tmp_input_path\<close> or \<^verbatim>\<open>wav_path\<close> whose \<^verbatim>\<open>os.remove\<close> does not raise is absent from
  the file system.
\<close>

theorem cleanup_after_size_check:
  assumes "\<not> 25 * 2 ^ 20 < length (contents file)"
  shows "fst (cleanup w x) = Inr ()
     \<and> fst (transcribe_audio w file lang s) =
         fst (except_clause w (try_body w (contents file) lang
               ((logger_info (received_msg file) s)\<lparr>tmp_input_path := None, wav_path := None\<rparr>)))
     \<and> ((tmp_input_path (snd (transcribe_audio w file lang s)) = Some p
          \<or> wav_path (snd (transcribe_audio w file lang s)) = Some p)
         \<and> remove_error w p = None
         \<longrightarrow> fs (snd (transcribe_audio w file lang s)) p = None)"
proof -
  have t: "transcribe_audio w file lang s = process w (contents file) lang (logger_info (received_msg file) s)"
    using assms by (simp add: transcribe_audio_def Let_def oversize_iff)
  show ?thesis
    unfolding t using process_paths [of w "contents file" lang "logger_info (received_msg file) s" p]
    by (auto simp: cleanup_ok process_split)
qed

theorem cleanup_after_size_check_witness:
  "\<not> 25 * 2 ^ 20 < length (contents small_file)
   \<and> tmp_input_path (snd (transcribe_audio ok_world small_file (Some (lit ''en'')) boot)) = Some (lit ''/tmp/tmpa1.ogg'')
   \<and> remove_error ok_world (lit ''/tmp/tmpa1.ogg'') = None
   \<and> fs (snd (transcribe_audio ok_world small_file (Some (lit ''en'')) boot)) (lit ''/tmp/tmpa1.ogg'') = None"
proof -
  have a: "\<not> 25 * 2 ^ 20 < length (contents small_file)" by (simp add: small_file_def)
  have b: "remove_error ok_world (lit ''/tmp/tmpa1.ogg'') = None" by (simp add: ok_world_def)
  from cleanup_after_size_check [OF a, of ok_world boot "Some (lit ''en'')" boot "lit ''/tmp/tmpa1.ogg''"]
    a b ok_run
  show ?thesis by simp
qed

text \<open>
  C1 as stated fails where \<^verbatim>\<open>os.remove\<close> raises: lines 137-140 swallow the exception, the
  request succeeds, and the file the request created is still there.
\<close>

theorem leftover_file_counterexample:
  "\<not> 25 * 2 ^ 20 < length (contents small_file)
   \<and> fs boot (lit ''/tmp/tmpa1.ogg'') = None
   \<and> TempFileCreated (lit ''/tmp/tmpa1.ogg'')
        \<in> set (trace (snd (transcribe_audio undeletable_world small_file None boot)))
   \<and> fs (snd (transcribe_audio undeletable_world small_file None boot)) (lit ''/tmp/tmpa1.ogg'') =
        Some (contents small_file)"
  using undeletable_run by (simp add: small_file_def boot_def)




text \<open>
  C4. Where the converter exits with a non-zero status the handler answers 500 and logs the
  converter's diagnostic output, which is not part of the response. The detail of the response
  is not the detail of the exception raised at line 101, though: the \<^verbatim>\<open>except\<close> clause of
  line 129 catches that exception as well and raises a new one whose detail is \<^verbatim>\<open>str(e)\<close>.
  With Starlette's \<^verbatim>\<open>__str__\<close> the client reads \<^verbatim>\<open>500: Audio conversion failed\<close>.
\<close>

theorem conversion_failure_detail:
  assumes "\<not> 25 * 2 ^ 20 < length (contents file)"
    and "mktemp_stem w (fs s) = Inr stem"
    and "write_error w (stem @ lit ''.ogg'') (contents file) = None"
    and "close_error w (stem @ lit ''.ogg'') = None"
    and "subprocess_run w
           (ffmpeg_args (stem @ lit ''.ogg'') (py_replace (lit ''.ogg'') (lit ''.wav'') (stem @ lit ''.ogg'')))
           ((fs s)(stem @ lit ''.ogg'' \<mapsto> contents file)) = Inr (cp, f')"
    and "returncode cp \<noteq> 0"
  shows "fst (transcribe_audio w file lang s) =
           Inl (HTTPException 500 (http_exception_str w 500 (lit ''Audio conversion failed'')))
     \<and> LogError (lit ''FFmpeg error: '' @ stderr cp) \<in> set (trace (snd (transcribe_audio w file lang s)))"
proof -
  let ?tmp = "stem @ lit ''.ogg''"
  let ?s0 = "(logger_info (received_msg file) s)\<lparr>tmp_input_path := None, wav_path := None\<rparr>"
  let ?t = "try_body w (contents file) lang ?s0"
  let ?e = "except_clause w ?t"
  have m: "mktemp_stem w (fs ?s0) = Inr stem" using assms(2) by (simp add: logger_info_def emit_def)
  have f0: "fs ?s0 = fs s" by (simp add: logger_info_def emit_def)
  have t: "fst ?t = Inl (HTTPException 500 (lit ''Audio conversion failed''))
      \<and> LogError (lit ''FFmpeg error: '' @ stderr cp) \<in> set (trace (snd ?t))"
    using assms(5,6)
    by (simp add: try_body_def save_upload_ok [OF m assms(3,4)] convert_def Let_def f0
        emit_def logger_error_def)
  obtain r s1 where ts: "?t = (r, s1)" by (cases ?t)
  with t have r: "r = Inl (HTTPException 500 (lit ''Audio conversion failed''))"
    and l: "LogError (lit ''FFmpeg error: '' @ stderr cp) \<in> set (trace s1)" by simp_all
  have e: "fst ?e = Inl (HTTPException 500 (http_exception_str w 500 (lit ''Audio conversion failed'')))"
    and el: "LogError (lit ''FFmpeg error: '' @ stderr cp) \<in> set (trace (snd ?e))"
    using l by (simp_all add: ts r except_clause_def is_Exception_def exc_str_def logger_error_def emit_def)
  from cleanup_frame [of w "snd ?e"] obtain evs where
    "trace (snd (cleanup w (snd ?e))) = trace (snd ?e) @ evs" by blast
  with el have "LogError (lit ''FFmpeg error: '' @ stderr cp) \<in> set (trace (snd (cleanup w (snd ?e))))"
    by simp
  with e show ?thesis by (simp add: accepted_run [OF assms(1)] process_split)
qed

theorem conversion_failure_detail_witness:
  "fst (transcribe_audio bad_audio_world small_file None boot) =
     Inl (HTTPException 500 (lit ''500: Audio conversion failed''))
   \<and> lit ''500: Audio conversion failed'' \<noteq> lit ''Audio conversion failed''
   \<and> LogError (lit ''FFmpeg error: Invalid data found'')
        \<in> set (trace (snd (transcribe_audio bad_audio_world small_file None boot)))"
proof -
  have a: "\<not> 25 * 2 ^ 20 < length (contents small_file)" by (simp add: small_file_def)
  have b: "mktemp_stem bad_audio_world (fs boot) = Inr (lit ''/tmp/tmpa1'')"
    by (simp add: bad_audio_world_def ok_world_def)
  have c: "write_error bad_audio_world (lit ''/tmp/tmpa1'' @ lit ''.ogg'') (contents small_file) = None"
    by (simp add: bad_audio_world_def ok_world_def)
  have d: "close_error bad_audio_world (lit ''/tmp/tmpa1'' @ lit ''.ogg'') = None"
    by (simp add: bad_audio_world_def ok_world_def)
  have e: "subprocess_run bad_audio_world
      (ffmpeg_args (lit ''/tmp/tmpa1'' @ lit ''.ogg'')
         (py_replace (lit ''.ogg'') (lit ''.wav'') (lit ''/tmp/tmpa1'' @ lit ''.ogg'')))
      ((fs boot)(lit ''/tmp/tmpa1'' @ lit ''.ogg'' \<mapsto> contents small_file)) =
    Inr (\<lparr>returncode = 1, stdout = [], stderr = lit ''Invalid data found''\<rparr>,
         (fs boot)(lit ''/tmp/tmpa1'' @ lit ''.ogg'' \<mapsto> contents small_file))"
    by (simp add: bad_audio_world_def ok_world_def)
  have f: "returncode \<lparr>returncode = 1, stdout = [], stderr = lit ''Invalid data found''\<rparr> \<noteq> 0"
    by simp
  have g: "http_exception_str bad_audio_world 500 (lit ''Audio conversion failed'') =
      lit ''500: Audio conversion failed''"
    by (simp add: bad_audio_world_def ok_world_def starlette_str_def lit_def)
  from conversion_failure_detail [OF a b c d e f, of None] g show ?thesis
    by (simp add: lit_def)
qed

text \<open>
  C5. The \<^verbatim>\<open>except\<close> clause does not let an \<^verbatim>\<open>HTTPException\<close> pass unchanged: it is an
  \<^verbatim>\<open>Exception\<close>, so it is logged and replaced by a 500 whose detail is its \<^verbatim>\<open>str(e)\<close>, like
  any other. The handler registered for \<^verbatim>\<open>Exception\<close> answers 500 with the fixed detail
  \<^verbatim>\<open>Internal server error\<close>.
\<close>

theorem structured_errors_are_rewrapped:
  "except_clause w (Inl (HTTPException code detail), s) =
     (Inl (HTTPException 500 (http_exception_str w code detail)),
      logger_error (lit ''Transcription error: '' @ http_exception_str w code detail) s)
   \<and> fst (except_clause ok_world (Inl (HTTPException 500 (lit ''Audio conversion failed'')), s)) =
       Inl (HTTPException 500 (lit ''500: Audio conversion failed''))
   \<and> lit ''500: Audio conversion failed'' \<noteq> lit ''Audio conversion failed''
   \<and> fst (general_exception_handler w request exc) =
       \<lparr>status_code = 500, content = [(lit ''detail'', lit ''Internal server error'')]\<rparr>"
  by (simp add: except_clause_def is_Exception_def exc_str_def general_exception_handler_def
      ok_world_def starlette_str_def lit_def)

text \<open>
  C8. \<^verbatim>\<open>GET /\<close> and \<^verbatim>\<open>GET /health\<close> read the global name \<^verbatim>\<open>tiny\<close>, which the module never
  binds: line 32 binds \<^verbatim>\<open>MODEL_SIZE\<close>, from the environment variable called \<^verbatim>\<open>tiny\<close> with the
  default \<^verbatim>\<open>base\<close>. Both endpoints raise \<^verbatim>\<open>NameError\<close> in every environment, and so does
  loading the module (line 33).
\<close>

theorem health_endpoints_name_error:
  "root_endpoint (module_globals environ) = Inl (name_error ''tiny'')
   \<and> health (module_globals environ) = Inl (name_error ''tiny'')
   \<and> load_module environ = Inl (name_error ''tiny'')
   \<and> module_globals environ ''MODEL_SIZE'' = Some (os_getenv environ (lit ''tiny'') (lit ''base''))"
  by (simp add: root_endpoint_def health_def load_module_def module_globals_def lookup_name_def)

end
